theory Spec2Isabelle
  imports Complex_Main "HOL-Library.Multiset"
begin

section \<open>JavaScript numbers\<close>

text \<open>
  The amounts of the funding flow are JavaScript numbers. A number is modelled as
  \<open>NaN\<close>, one of the two infinities, or a finite value. Finite values are exact
  rationals: the rounding and the range of binary64 and the sign of zero are not
  modelled, so the theorems below only speak about how the handlers combine the
  operations, which is the same whatever the rounding. Comparisons with \<open>NaN\<close> are
  false, as in the language.
\<close>

datatype jsnum = NaN | NInf | Fin rat | PInf

fun is_nan :: "jsnum \<Rightarrow> bool" where
  "is_nan NaN = True"
| "is_nan _ = False"

text \<open>\<open>a < b\<close>\<close>

fun js_lt :: "jsnum \<Rightarrow> jsnum \<Rightarrow> bool" where
  "js_lt NaN _ = False"
| "js_lt _ NaN = False"
| "js_lt _ NInf = False"
| "js_lt NInf _ = True"
| "js_lt PInf _ = False"
| "js_lt (Fin a) PInf = True"
| "js_lt (Fin a) (Fin b) = (a < b)"

text \<open>\<open>a > b\<close>, \<open>a <= b\<close> and \<open>a >= b\<close>\<close>

definition js_gt :: "jsnum \<Rightarrow> jsnum \<Rightarrow> bool" where
  "js_gt a b = js_lt b a"

definition js_le :: "jsnum \<Rightarrow> jsnum \<Rightarrow> bool" where
  "js_le a b = (\<not> is_nan a \<and> \<not> is_nan b \<and> \<not> js_lt b a)"

definition js_ge :: "jsnum \<Rightarrow> jsnum \<Rightarrow> bool" where
  "js_ge a b = (\<not> is_nan a \<and> \<not> is_nan b \<and> \<not> js_lt a b)"

text \<open>\<open>a * b\<close>\<close>

fun js_mul :: "jsnum \<Rightarrow> jsnum \<Rightarrow> jsnum" where
  "js_mul NaN _ = NaN"
| "js_mul _ NaN = NaN"
| "js_mul (Fin a) (Fin b) = Fin (a * b)"
| "js_mul (Fin a) PInf = (if a = 0 then NaN else if 0 < a then PInf else NInf)"
| "js_mul (Fin a) NInf = (if a = 0 then NaN else if 0 < a then NInf else PInf)"
| "js_mul PInf (Fin b) = (if b = 0 then NaN else if 0 < b then PInf else NInf)"
| "js_mul NInf (Fin b) = (if b = 0 then NaN else if 0 < b then NInf else PInf)"
| "js_mul PInf PInf = PInf"
| "js_mul NInf NInf = PInf"
| "js_mul PInf NInf = NInf"
| "js_mul NInf PInf = NInf"

text \<open>\<open>a / b\<close>; a finite value divided by zero is an infinity or \<open>NaN\<close>, never an error.\<close>

fun js_div :: "jsnum \<Rightarrow> jsnum \<Rightarrow> jsnum" where
  "js_div NaN _ = NaN"
| "js_div _ NaN = NaN"
| "js_div (Fin a) (Fin b) =
     (if b = 0 then (if a = 0 then NaN else if 0 < a then PInf else NInf)
      else Fin (a / b))"
| "js_div (Fin a) _ = Fin 0"
| "js_div PInf (Fin b) = (if 0 \<le> b then PInf else NInf)"
| "js_div NInf (Fin b) = (if 0 \<le> b then NInf else PInf)"
| "js_div _ _ = NaN"

text \<open>\<open>a + b\<close>\<close>

fun js_add :: "jsnum \<Rightarrow> jsnum \<Rightarrow> jsnum" where
  "js_add NaN _ = NaN"
| "js_add _ NaN = NaN"
| "js_add (Fin a) (Fin b) = Fin (a + b)"
| "js_add (Fin a) b = b"
| "js_add a (Fin b) = a"
| "js_add PInf PInf = PInf"
| "js_add NInf NInf = NInf"
| "js_add _ _ = NaN"

text \<open>\<open>Math.floor(a)\<close>\<close>

fun js_floor :: "jsnum \<Rightarrow> jsnum" where
  "js_floor (Fin a) = Fin (of_int \<lfloor>a\<rfloor>)"
| "js_floor a = a"

subsection \<open>\<open>parseFloat\<close> and \<open>parseInt\<close>\<close>

text \<open>
  Both read the longest prefix of the trimmed string that is a literal and ignore the
  rest; with no such prefix the result is \<open>NaN\<close>. Strings are ASCII here, so the white
  space trimmed is tab, line feed, vertical tab, form feed, carriage return and space.
\<close>

definition is_ws :: "char \<Rightarrow> bool" where
  "is_ws c = (c \<in> set [CHR 0x09, CHR 0x0A, CHR 0x0B, CHR 0x0C, CHR 0x0D, CHR '' ''])"

definition is_digit :: "char \<Rightarrow> bool" where
  "is_digit c = (c \<in> set ''0123456789'')"

definition digit_val :: "char \<Rightarrow> nat" where
  "digit_val c = of_char c - 48"

definition digits_val :: "string \<Rightarrow> nat" where
  "digits_val ds = foldl (\<lambda>a c. 10 * a + digit_val c) 0 ds"

text \<open>An optional sign: whether it is a minus, and the rest.\<close>

fun take_sign :: "string \<Rightarrow> bool \<times> string" where
  "take_sign [] = (False, [])"
| "take_sign (c # r) =
     (if c = CHR ''-'' then (True, r)
      else if c = CHR ''+'' then (False, r)
      else (False, c # r))"

text \<open>The exponent part \<open>e\<close>/\<open>E\<close>, sign, digits: its value, 0 when it is absent or incomplete.\<close>

fun exponent_part :: "string \<Rightarrow> int" where
  "exponent_part [] = 0"
| "exponent_part (c # r) =
     (if c = CHR ''e'' \<or> c = CHR ''E'' then
        (case take_sign r of
           (neg, u) \<Rightarrow>
             (let ds = takeWhile is_digit u in
              if ds = [] then 0
              else if neg then - int (digits_val ds) else int (digits_val ds)))
      else 0)"

definition pow10 :: "int \<Rightarrow> rat" where
  "pow10 e = (if 0 \<le> e then 10 ^ nat e else 1 / 10 ^ nat (- e))"

text \<open>The fraction part after the integer digits: its digits and the rest.\<close>

fun fraction_part :: "string \<Rightarrow> string \<times> string" where
  "fraction_part [] = ([], [])"
| "fraction_part (c # r) =
     (if c = CHR ''.'' then (takeWhile is_digit r, dropWhile is_digit r)
      else ([], c # r))"

definition parseFloat :: "string \<Rightarrow> jsnum" where
  "parseFloat s =
     (case take_sign (dropWhile is_ws s) of
        (neg, u) \<Rightarrow>
          if take 8 u = ''Infinity'' then (if neg then NInf else PInf)
          else
            (let ip = takeWhile is_digit u in
             case fraction_part (dropWhile is_digit u) of
               (fp, r) \<Rightarrow>
                 if ip = [] \<and> fp = [] then NaN
                 else
                   (let v = (of_nat (digits_val ip) + of_nat (digits_val fp) / 10 ^ length fp)
                              * pow10 (exponent_part r)
                    in Fin (if neg then - v else v))))"

text \<open>
  \<open>parseInt\<close> with no radix argument: decimal digits, or hexadecimal digits after
  \<open>0x\<close>/\<open>0X\<close>. Only the decimal case is modelled; a string with the hexadecimal prefix
  reads as its leading \<open>0\<close> here.
\<close>

definition parseInt :: "string \<Rightarrow> jsnum" where
  "parseInt s =
     (case take_sign (dropWhile is_ws s) of
        (neg, u) \<Rightarrow>
          (let ds = takeWhile is_digit u in
           if ds = [] then NaN
           else Fin (if neg then - of_nat (digits_val ds) else of_nat (digits_val ds))))"

section \<open>Data model\<close>

text \<open>
  The rows of the two tables, as the interface \<open>StartupIdea\<close> and the inserted objects
  give them. Timestamps are milliseconds since the epoch: the ISO strings written by
  \<open>toISOString()\<close> and read back by \<open>new Date(...)\<close> stand for exactly these. The idea's
  field \<open>id\<close> is \<open>id'\<close> here.
\<close>

datatype status = Open | Funded | Expired

type_synonym timestamp = int

record idea =
  id' :: string
  wallet_address :: string
  title :: string
  description :: string
  image_url :: "string option"
  money_needed :: jsnum
  share_offered :: string
  end_date :: timestamp
  status :: status
  created_at :: timestamp

record investment =
  idea_id :: string
  investor_address :: string
  amount :: jsnum
  share_percentage :: jsnum
  transaction_id :: string
  invested_at :: timestamp

subsection \<open>The record store\<close>

text \<open>
  The hosted store holds the tables \<open>startup_ideas\<close> and \<open>investments\<close>. The five
  requests the components send are modelled on the tables directly; rows are kept in
  the order of their insertion.
\<close>

record store =
  startup_ideas :: "idea list"
  investments :: "investment list"

text \<open>\<open>from('startup_ideas').select('*').order('created_at', { ascending: false })\<close>\<close>

definition select_ideas_desc :: "store \<Rightarrow> idea list" where
  "select_ideas_desc s = sort_key (\<lambda>i. - created_at i) (startup_ideas s)"

text \<open>\<open>from('startup_ideas').update({ status: st }).eq('id', i)\<close>\<close>

definition update_status :: "string \<Rightarrow> status \<Rightarrow> store \<Rightarrow> store" where
  "update_status i st s =
     s\<lparr>startup_ideas := map (\<lambda>r. if id' r = i then r\<lparr>status := st\<rparr> else r) (startup_ideas s)\<rparr>"

text \<open>\<open>from('investments').insert([row])\<close>\<close>

definition insert_investment :: "investment \<Rightarrow> store \<Rightarrow> store" where
  "insert_investment row s = s\<lparr>investments := investments s @ [row]\<rparr>"

text \<open>\<open>from('investments').select('amount').eq('idea_id', i)\<close>\<close>

definition select_amounts :: "string \<Rightarrow> store \<Rightarrow> jsnum list" where
  "select_amounts i s = map amount (filter (\<lambda>v. idea_id v = i) (investments s))"

text \<open>\<open>from('startup_ideas').insert([row])\<close>\<close>

definition insert_idea :: "idea \<Rightarrow> store \<Rightarrow> store" where
  "insert_idea row s = s\<lparr>startup_ideas := startup_ideas s @ [row]\<rparr>"

subsection \<open>The environment of a handler\<close>

text \<open>
  What a handler reads from outside and cannot decide: the clock (the k-th
  \<open>new Date()\<close> of a run reads \<open>clock k\<close>), how the ledger calls of an investment end,
  whether each store request succeeds, the connected wallet, and the id the store gives
  a new idea.
\<close>

datatype ledger_outcome =
    ParamsFailed
  | BuildFailed
  | SignRefused
  | SubmitFailed
  | ConfirmTimeout string
  | Confirmed string

record env =
  clock :: "nat \<Rightarrow> timestamp"
  ledger :: ledger_outcome
  select_ideas_ok :: bool
  update_ok :: bool
  insert_investment_ok :: bool
  select_investments_ok :: bool
  insert_idea_ok :: bool
  new_id :: string
  activeAddress :: "string option"
  walletAddress :: string

text \<open>The requests sent to the store and the calls made to the ledger client, in order.\<close>

datatype call =
    SelectIdeas
  | UpdateStatus string status
  | InsertInvestment investment
  | SelectAmounts string
  | InsertIdea idea
  | GetTransactionParams
  | MakePaymentTxn "string option" string jsnum string
  | SignTransaction
  | SendRawTransaction
  | WaitForConfirmation string

fun is_ledger_call :: "call \<Rightarrow> bool" where
  "is_ledger_call GetTransactionParams = True"
| "is_ledger_call (MakePaymentTxn sender receiver amt memo) = True"
| "is_ledger_call SignTransaction = True"
| "is_ledger_call SendRawTransaction = True"
| "is_ledger_call (WaitForConfirmation txid) = True"
| "is_ledger_call _ = False"

text \<open>The amount of every payment transaction built.\<close>

fun payment_amounts :: "call list \<Rightarrow> jsnum list" where
  "payment_amounts [] = []"
| "payment_amounts (MakePaymentTxn sender receiver amt memo # cs) = amt # payment_amounts cs"
| "payment_amounts (c # cs) = payment_amounts cs"


text \<open>
  The snackbar messages of \<open>InvestorView\<close>. The success message carries the amount and
  the share percentage it prints (the share with \<open>toFixed(2)\<close>).
\<close>

datatype notice =
    WarnInvalidAmount
  | WarnExceedsNeeded
  | InfoTransactionSent
  | SuccessInvested jsnum jsnum
  | ErrorInvestment
  | ErrorFetch

text \<open>
  The state a run of a handler works on: the shared store, the state of one
  \<open>InvestorView\<close> (\<open>ideas\<close>, \<open>loading\<close>, \<open>investAmount\<close>, \<open>investingId\<close>), the number of
  clock readings so far, and what has been sent out.
\<close>

record world =
  db :: store
  ideas :: "idea list"
  loading :: bool
  investAmount :: "string \<rightharpoonup> string"
  investingId :: "string option"
  ticks :: nat
  calls :: "call list"
  snackbar :: "notice list"

definition new_Date :: "env \<Rightarrow> world \<Rightarrow> timestamp \<times> world" where
  "new_Date e w = (clock e (ticks w), w\<lparr>ticks := Suc (ticks w)\<rparr>)"

definition record_calls :: "call list \<Rightarrow> world \<Rightarrow> world" where
  "record_calls cs w = w\<lparr>calls := calls w @ cs\<rparr>"

definition enqueueSnackbar :: "notice \<Rightarrow> world \<Rightarrow> world" where
  "enqueueSnackbar n w = w\<lparr>snackbar := snackbar w @ [n]\<rparr>"

text \<open>
  A status update sent to the store. Neither handler looks at its result, so a failed
  update leaves the row as it was and the handler goes on.
\<close>

definition send_update_status :: "env \<Rightarrow> string \<Rightarrow> status \<Rightarrow> world \<Rightarrow> world" where
  "send_update_status e i st w =
     (let w1 = record_calls [UpdateStatus i st] w in
      if update_ok e then w1\<lparr>db := update_status i st (db w1)\<rparr> else w1)"

section \<open>\<open>InvestorView\<close>\<close>

subsection \<open>\<open>fetchIdeas\<close>\<close>

text \<open>
  The callback mapped over the rows read: each run reads the clock, and for a row that
  is \<open>open\<close> with \<open>now > endDate\<close> sends the \<open>expired\<close> update and returns the row as
  \<open>expired\<close>.
\<close>

fun reconcile :: "env \<Rightarrow> idea list \<Rightarrow> world \<Rightarrow> idea list \<times> world" where
  "reconcile e [] w = ([], w)"
| "reconcile e (idea # rest) w =
     (case new_Date e w of
        (now, w1) \<Rightarrow>
          if status idea = Open \<and> end_date idea < now then
            (case reconcile e rest (send_update_status e (id' idea) Expired w1) of
               (out, w2) \<Rightarrow> (idea\<lparr>status := Expired\<rparr> # out, w2))
          else
            (case reconcile e rest w1 of
               (out, w2) \<Rightarrow> (idea # out, w2)))"

definition fetchIdeas :: "env \<Rightarrow> world \<Rightarrow> world" where
  "fetchIdeas e w =
     (let w1 = record_calls [SelectIdeas] w in
      if select_ideas_ok e then
        (case reconcile e (select_ideas_desc (db w1)) w1 of
           (updatedIdeas, w2) \<Rightarrow> w2\<lparr>ideas := updatedIdeas, loading := False\<rparr>)
      else (enqueueSnackbar ErrorFetch w1)\<lparr>loading := False\<rparr>)"

subsection \<open>\<open>handleInvest\<close>\<close>

text \<open>
  Lines 101 to 129: the calls to the ledger client, up to the one that throws. The
  amount of the payment is \<open>Math.floor(amount * 1_000_000)\<close>. The encoding of the
  unsigned transaction, whose result is not used, counts as part of building it. The
  result is the transaction id once the transaction is confirmed.
\<close>

definition ledger_steps :: "env \<Rightarrow> idea \<Rightarrow> jsnum \<Rightarrow> world \<Rightarrow> string option \<times> world" where
  "ledger_steps e idea amt w =
     (let amountInMicroUnits = js_floor (js_mul amt (Fin 1000000));
          txn = MakePaymentTxn (activeAddress e) (wallet_address idea) amountInMicroUnits
                  (''Investment in: '' @ title idea);
          sent = [GetTransactionParams, txn, SignTransaction, SendRawTransaction]
      in case ledger e of
           ParamsFailed \<Rightarrow> (None, record_calls [GetTransactionParams] w)
         | BuildFailed \<Rightarrow> (None, record_calls [GetTransactionParams, txn] w)
         | SignRefused \<Rightarrow> (None, record_calls [GetTransactionParams, txn, SignTransaction] w)
         | SubmitFailed \<Rightarrow> (None, record_calls sent w)
         | ConfirmTimeout txid \<Rightarrow>
             (None, record_calls [WaitForConfirmation txid]
                      (enqueueSnackbar InfoTransactionSent (record_calls sent w)))
         | Confirmed txid \<Rightarrow>
             (Some txid, record_calls [WaitForConfirmation txid]
                      (enqueueSnackbar InfoTransactionSent (record_calls sent w))))"

text \<open>\<open>allInvestments.reduce((sum, inv) => sum + inv.amount, 0)\<close>\<close>

definition js_sum :: "jsnum list \<Rightarrow> jsnum" where
  "js_sum xs = foldl js_add (Fin 0) xs"

text \<open>
  Lines 131 to 174, after the confirmation: the share, the insert, the fresh read of the
  amounts, the \<open>funded\<close> update, the success message. The closing \<open>fetchIdeas()\<close> is
  started and not awaited; it touches nothing the rest of the handler reads, so it is
  run here.
\<close>

definition commit_investment :: "env \<Rightarrow> idea \<Rightarrow> jsnum \<Rightarrow> string \<Rightarrow> world \<Rightarrow> world" where
  "commit_investment e idea amt txid w =
     (let sharePercentage = js_mul (js_div amt (money_needed idea)) (Fin 100) in
      case new_Date e w of
        (now, w1) \<Rightarrow>
          (let row = \<lparr>idea_id = id' idea, investor_address = walletAddress e, amount = amt,
                       share_percentage = sharePercentage, transaction_id = txid,
                       invested_at = now\<rparr>;
               w2 = record_calls [InsertInvestment row] w1
           in if \<not> insert_investment_ok e then enqueueSnackbar ErrorInvestment w2
              else
                (let w3 = record_calls [SelectAmounts (id' idea)]
                            (w2\<lparr>db := insert_investment row (db w2)\<rparr>)
                 in if \<not> select_investments_ok e then enqueueSnackbar ErrorInvestment w3
                    else
                      (let allInvestments = select_amounts (id' idea) (db w3);
                           totalInvested = js_sum allInvestments;
                           w4 = (if js_ge totalInvested (money_needed idea)
                                 then send_update_status e (id' idea) Funded w3 else w3);
                           w5 = enqueueSnackbar (SuccessInvested amt sharePercentage) w4;
                           w6 = w5\<lparr>investAmount := (investAmount w5)(id' idea \<mapsto> [])\<rparr>
                       in fetchIdeas e w6))))"

text \<open>\<open>investAmount[idea.id] || '0'\<close>: a missing or empty entry reads as \<open>'0'\<close>.\<close>

definition amount_input :: "world \<Rightarrow> idea \<Rightarrow> string" where
  "amount_input w idea =
     (case investAmount w (id' idea) of
        None \<Rightarrow> ''0''
      | Some s \<Rightarrow> if s = [] then ''0'' else s)"

definition handleInvest :: "env \<Rightarrow> idea \<Rightarrow> world \<Rightarrow> world" where
  "handleInvest e idea w =
     (let amt = parseFloat (amount_input w idea) in
      if js_le amt (Fin 0) then enqueueSnackbar WarnInvalidAmount w
      else if js_gt amt (money_needed idea) then enqueueSnackbar WarnExceedsNeeded w
      else
        (let w1 = w\<lparr>investingId := Some (id' idea)\<rparr>;
             w2 = (case ledger_steps e idea amt w1 of
                     (None, w') \<Rightarrow> enqueueSnackbar ErrorInvestment w'
                   | (Some txid, w') \<Rightarrow> commit_investment e idea amt txid w')
         in w2\<lparr>investingId := None\<rparr>))"




section \<open>\<open>PostIdea\<close>\<close>

text \<open>The form of the modal; its fields \<open>title\<close> and \<open>description\<close> are prefixed here.\<close>

record formData =
  form_title :: string
  form_description :: string
  imageUrl :: string
  moneyNeeded :: string
  shareOffered :: string
  duration :: string

datatype post_error = InvalidTimeValue | InsertFailed

record post_state =
  form :: formData
  post_loading :: bool
  post_error :: "post_error option"
  openModal :: bool

definition empty_form :: formData where
  "empty_form = \<lparr>form_title = [], form_description = [], imageUrl = [], moneyNeeded = [],
                   shareOffered = [], duration = []\<rparr>"

definition msPerDay :: int where
  "msPerDay = 86400000"

text \<open>The largest time value of a \<open>Date\<close>; beyond it the date is invalid.\<close>

definition maxTime :: int where
  "maxTime = 8640000000000000"

text \<open>
  \<open>endDate.setDate(endDate.getDate() + n)\<close>: the date moved by \<open>n\<close> days, in a time zone
  whose offset is the same on both days. With \<open>n\<close> not a number, or the result out of
  range, the date is invalid (\<open>None\<close>), and \<open>toISOString()\<close> throws on it.
\<close>

definition setDate_plus :: "timestamp \<Rightarrow> jsnum \<Rightarrow> timestamp option" where
  "setDate_plus t n =
     (case n of
        Fin d \<Rightarrow> (let u = t + \<lfloor>d\<rfloor> * msPerDay in if \<bar>u\<bar> \<le> maxTime then Some u else None)
      | _ \<Rightarrow> None)"

text \<open>
  \<open>handleSubmit\<close>: the clock is read at line 39 for \<open>endDate\<close> and again at line 54 for
  \<open>created_at\<close>; an invalid \<open>endDate\<close> throws at line 52, before the second reading and
  before the insert.
\<close>

definition handleSubmit :: "env \<Rightarrow> post_state \<Rightarrow> world \<Rightarrow> post_state \<times> world" where
  "handleSubmit e p w =
     (let p1 = p\<lparr>post_loading := True, post_error := None\<rparr>; f = form p1 in
      case new_Date e w of
        (t0, w1) \<Rightarrow>
          (case setDate_plus t0 (parseInt (duration f)) of
             None \<Rightarrow> (p1\<lparr>post_error := Some InvalidTimeValue, post_loading := False\<rparr>, w1)
           | Some endDate \<Rightarrow>
               (case new_Date e w1 of
                  (t1, w2) \<Rightarrow>
                    (let row = \<lparr>id' = new_id e, wallet_address = walletAddress e,
                                 title = form_title f, description = form_description f,
                                 image_url = (if imageUrl f = [] then None else Some (imageUrl f)),
                                 money_needed = parseFloat (moneyNeeded f),
                                 share_offered = shareOffered f, end_date = endDate,
                                 status = Open, created_at = t1\<rparr>;
                         w3 = record_calls [InsertIdea row] w2
                     in if insert_idea_ok e
                        then (p1\<lparr>form := empty_form, openModal := False, post_loading := False\<rparr>,
                              w3\<lparr>db := insert_idea row (db w3)\<rparr>)
                        else (p1\<lparr>post_error := Some InsertFailed, post_loading := False\<rparr>, w3)))))"

section \<open>Auxiliary notions\<close>

text \<open>
  The ids for which a run of the \<open>fetchIdeas\<close> callback over the rows \<open>xs\<close>, started at
  clock reading \<open>k\<close>, sends the \<open>expired\<close> update.
\<close>

fun expired_ids :: "env \<Rightarrow> nat \<Rightarrow> idea list \<Rightarrow> string list" where
  "expired_ids e k [] = []"
| "expired_ids e k (x # xs) =
     (if status x = Open \<and> end_date x < clock e k then id' x # expired_ids e (Suc k) xs
      else expired_ids e (Suc k) xs)"

text \<open>Newest first.\<close>

definition newest_first :: "idea list \<Rightarrow> bool" where
  "newest_first xs = sorted_wrt (\<lambda>a b. created_at b \<le> created_at a) xs"



section \<open>Example runs\<close>

text \<open>
  An environment in which every call succeeds, with a clock that starts at 1000 and
  advances by one millisecond per reading; one idea with a goal of 1000 that ends at
  time 5000; and a view of it with \<open>s\<close> typed into its amount field, where the view
  shows the idea with status \<open>shown\<close> while the store holds it with status \<open>stored\<close>.
\<close>

definition ex_env :: env where
  "ex_env = \<lparr>clock = (\<lambda>k. 1000 + int k), ledger = Confirmed ''TX1'', select_ideas_ok = True,
              update_ok = True, insert_investment_ok = True, select_investments_ok = True,
              insert_idea_ok = True, new_id = ''i3'', activeAddress = Some ''INVESTOR'',
              walletAddress = ''INVESTOR''\<rparr>"

definition ex_idea :: idea where
  "ex_idea = \<lparr>id' = ''i1'', wallet_address = ''OWNER'', title = ''T'', description = ''D'',
               image_url = None, money_needed = Fin 1000, share_offered = ''10%'',
               end_date = 5000, status = Open, created_at = 10\<rparr>"

definition ex_view :: "status \<Rightarrow> status \<Rightarrow> string \<Rightarrow> world" where
  "ex_view shown stored s =
     \<lparr>db = \<lparr>startup_ideas = [ex_idea\<lparr>status := stored\<rparr>], investments = []\<rparr>,
      ideas = [ex_idea\<lparr>status := shown\<rparr>], loading = False,
      investAmount = [''i1'' \<mapsto> s], investingId = None, ticks = 0, calls = [],
      snackbar = []\<rparr>"

definition ex_world :: "string \<Rightarrow> world" where
  "ex_world s = ex_view Open Open s"


text \<open>The same environment later on, after the idea has ended.\<close>

definition ex_late_env :: env where
  "ex_late_env = ex_env\<lparr>clock := (\<lambda>k. 6000 + int k)\<rparr>"

text \<open>
  A store with a second, newer idea that ends at time 9000, and a view that has not
  loaded yet.
\<close>

definition ex_idea2 :: idea where
  "ex_idea2 = \<lparr>id' = ''i2'', wallet_address = ''OWNER2'', title = ''T2'', description = ''D2'',
                image_url = None, money_needed = Fin 500, share_offered = ''5%'',
                end_date = 9000, status = Open, created_at = 20\<rparr>"

definition ex_two :: world where
  "ex_two = \<lparr>db = \<lparr>startup_ideas = [ex_idea, ex_idea2], investments = []\<rparr>, ideas = [],
              loading = True, investAmount = Map.empty, investingId = None, ticks = 0,
              calls = [], snackbar = []\<rparr>"

text \<open>The form of \<open>PostIdea\<close> filled in for a goal of 1000 and a duration of 30 days.\<close>

definition ex_post :: post_state where
  "ex_post = \<lparr>form = \<lparr>form_title = ''T3'', form_description = ''D3'', imageUrl = [],
                        moneyNeeded = ''1000'', shareOffered = ''10%'', duration = ''30''\<rparr>,
               post_loading = False, post_error = None, openModal = True\<rparr>"

section \<open>Properties\<close>

subsection \<open>The reconciliation loop\<close>

lemma reconcile_calls:
  "calls (snd (reconcile e xs w)) = calls w @ map (\<lambda>i. UpdateStatus i Expired) (expired_ids e (ticks w) xs)"
  by (induction xs arbitrary: w)
     (simp_all add: new_Date_def send_update_status_def record_calls_def split_beta Let_def)

lemma reconcile_ticks: "ticks (snd (reconcile e xs w)) = ticks w + length xs"
  by (induction xs arbitrary: w)
     (simp_all add: new_Date_def send_update_status_def record_calls_def split_beta Let_def)



lemma reconcile_rows:
  "startup_ideas (db (snd (reconcile e xs w))) =
     map (\<lambda>r. if update_ok e \<and> id' r \<in> set (expired_ids e (ticks w) xs) then r\<lparr>status := Expired\<rparr> else r)
       (startup_ideas (db w))"
proof (induction xs arbitrary: w)
  case Nil
  show ?case by (simp add: map_idI)
next
  case (Cons x xs)
  show ?case
    by (simp add: Cons.IH new_Date_def send_update_status_def record_calls_def update_status_def
        split_beta Let_def)
qed

lemma reconcile_ids: "map id' (fst (reconcile e xs w)) = map id' xs"
  by (induction xs arbitrary: w)
     (simp_all add: new_Date_def split_beta Let_def)

lemma reconcile_created: "map created_at (fst (reconcile e xs w)) = map created_at xs"
  by (induction xs arbitrary: w)
     (simp_all add: new_Date_def split_beta Let_def)


subsection \<open>\<open>fetchIdeas\<close>\<close>

lemma payment_amounts_append:
  "payment_amounts (xs @ ys) = payment_amounts xs @ payment_amounts ys"
  by (induction xs rule: payment_amounts.induct) simp_all

lemma payment_amounts_updates: "payment_amounts (map (\<lambda>i. UpdateStatus i st) is) = []"
  by (induction "is") simp_all



lemma fetchIdeas_calls:
  "calls (fetchIdeas e w) =
     calls w @ SelectIdeas #
       (if select_ideas_ok e
        then map (\<lambda>i. UpdateStatus i Expired) (expired_ids e (ticks w) (select_ideas_desc (db w)))
        else [])"
  by (simp add: fetchIdeas_def Let_def split_beta reconcile_calls record_calls_def
      enqueueSnackbar_def)



lemma fetchIdeas_rows:
  "startup_ideas (db (fetchIdeas e w)) =
     (if select_ideas_ok e
      then map (\<lambda>r. if update_ok e \<and> id' r \<in> set (expired_ids e (ticks w) (select_ideas_desc (db w)))
                    then r\<lparr>status := Expired\<rparr> else r) (startup_ideas (db w))
      else startup_ideas (db w))"
  by (simp add: fetchIdeas_def Let_def split_beta reconcile_rows record_calls_def
      enqueueSnackbar_def)

lemma fetchIdeas_ideas:
  "select_ideas_ok e \<Longrightarrow>
     ideas (fetchIdeas e w) = fst (reconcile e (select_ideas_desc (db w)) (record_calls [SelectIdeas] w))"
  by (simp add: fetchIdeas_def Let_def split_beta record_calls_def)

lemma set_select_ideas_desc: "set (select_ideas_desc s) = set (startup_ideas s)"
  by (simp add: select_ideas_desc_def)



subsection \<open>\<open>handleInvest\<close>\<close>

lemma ledger_steps_db: "db (snd (ledger_steps e idea amt w)) = db w"
  by (simp add: ledger_steps_def Let_def record_calls_def enqueueSnackbar_def
      split: ledger_outcome.splits)

lemma ledger_steps_result:
  "fst (ledger_steps e idea amt w) = (case ledger e of Confirmed txid \<Rightarrow> Some txid | _ \<Rightarrow> None)"
  by (simp add: ledger_steps_def Let_def split: ledger_outcome.splits)

lemma ledger_steps_store_calls:
  "filter (\<lambda>c. \<not> is_ledger_call c) (calls (snd (ledger_steps e idea amt w))) =
     filter (\<lambda>c. \<not> is_ledger_call c) (calls w)"
  by (simp add: ledger_steps_def Let_def record_calls_def enqueueSnackbar_def
      split: ledger_outcome.splits)

lemma ledger_steps_first_call:
  "\<exists>cs. calls (snd (ledger_steps e idea amt w)) = calls w @ GetTransactionParams # cs"
  by (simp add: ledger_steps_def Let_def record_calls_def enqueueSnackbar_def
      split: ledger_outcome.splits)

lemma ledger_steps_payment:
  "payment_amounts (calls (snd (ledger_steps e idea amt w))) =
     payment_amounts (calls w) @
       (if ledger e = ParamsFailed then [] else [js_floor (js_mul amt (Fin 1000000))])"
  by (simp add: ledger_steps_def Let_def record_calls_def enqueueSnackbar_def
      payment_amounts_append split: ledger_outcome.splits)

lemma commit_investment_payment:
  "payment_amounts (calls (commit_investment e idea amt txid w)) = payment_amounts (calls w)"
  by (simp add: commit_investment_def Let_def split_beta new_Date_def record_calls_def
      enqueueSnackbar_def send_update_status_def fetchIdeas_calls payment_amounts_append
      payment_amounts_updates)

lemma commit_investment_calls_prefix:
  "\<exists>cs. calls (commit_investment e idea amt txid w) = calls w @ cs"
  by (simp add: commit_investment_def Let_def split_beta new_Date_def record_calls_def
      enqueueSnackbar_def send_update_status_def fetchIdeas_calls)

lemma handleInvest_rejected:
  assumes "js_le (parseFloat (amount_input w idea)) (Fin 0)
           \<or> js_gt (parseFloat (amount_input w idea)) (money_needed idea)"
  shows "handleInvest e idea w =
           enqueueSnackbar (if js_le (parseFloat (amount_input w idea)) (Fin 0)
                            then WarnInvalidAmount else WarnExceedsNeeded) w"
  using assms by (auto simp add: handleInvest_def Let_def)

lemma handleInvest_accepted:
  assumes "\<not> js_le (parseFloat (amount_input w idea)) (Fin 0)"
      and "\<not> js_gt (parseFloat (amount_input w idea)) (money_needed idea)"
  shows "handleInvest e idea w =
           (case ledger_steps e idea (parseFloat (amount_input w idea))
                   (w\<lparr>investingId := Some (id' idea)\<rparr>) of
              (None, w') \<Rightarrow> enqueueSnackbar ErrorInvestment w'
            | (Some txid, w') \<Rightarrow>
                commit_investment e idea (parseFloat (amount_input w idea)) txid w')
           \<lparr>investingId := None\<rparr>"
  using assms by (simp add: handleInvest_def Let_def)

lemma handleInvest_first_call:
  assumes "\<not> js_le (parseFloat (amount_input w idea)) (Fin 0)"
      and "\<not> js_gt (parseFloat (amount_input w idea)) (money_needed idea)"
  shows "\<exists>cs. calls (handleInvest e idea w) = calls w @ GetTransactionParams # cs"
proof -
  let ?ls = "ledger_steps e idea (parseFloat (amount_input w idea)) (w\<lparr>investingId := Some (id' idea)\<rparr>)"
  obtain cs where cs: "calls (snd ?ls) = calls w @ GetTransactionParams # cs"
    using ledger_steps_first_call[of e idea "parseFloat (amount_input w idea)" "w\<lparr>investingId := Some (id' idea)\<rparr>"]
    by auto
  show ?thesis
  proof (cases "fst ?ls")
    case None
    then show ?thesis
      using cs by (simp add: handleInvest_accepted[OF assms] split_beta enqueueSnackbar_def)
  next
    case (Some txid)
    obtain ds where "calls (commit_investment e idea (parseFloat (amount_input w idea)) txid (snd ?ls))
                      = calls (snd ?ls) @ ds"
      using commit_investment_calls_prefix by blast
    then show ?thesis
      using cs Some by (simp add: handleInvest_accepted[OF assms] split_beta)
  qed
qed

lemma handleInvest_payment:
  assumes "\<not> js_le (parseFloat (amount_input w idea)) (Fin 0)"
      and "\<not> js_gt (parseFloat (amount_input w idea)) (money_needed idea)"
  shows "payment_amounts (calls (handleInvest e idea w)) =
           payment_amounts (calls w) @
             (if ledger e = ParamsFailed then []
              else [js_floor (js_mul (parseFloat (amount_input w idea)) (Fin 1000000))])"
proof -
  let ?ls = "ledger_steps e idea (parseFloat (amount_input w idea)) (w\<lparr>investingId := Some (id' idea)\<rparr>)"
  show ?thesis
  proof (cases "fst ?ls")
    case None
    then show ?thesis
      by (simp add: handleInvest_accepted[OF assms] split_beta enqueueSnackbar_def
          ledger_steps_payment)
  next
    case (Some txid)
    then show ?thesis
      by (simp add: handleInvest_accepted[OF assms] split_beta commit_investment_payment
          ledger_steps_payment)
  qed
qed












subsection \<open>Status writes\<close>









subsection \<open>The refreshed list\<close>

lemma expired_ids_from:
  "x \<in> set xs \<Longrightarrow> status x = Open \<Longrightarrow> \<forall>j\<ge>k. end_date x < clock e j \<Longrightarrow>
     id' x \<in> set (expired_ids e k xs)"
  by (induction xs arbitrary: k) auto

lemma reconcile_from:
  "x \<in> set xs \<Longrightarrow> status x = Open \<Longrightarrow> \<forall>j\<ge>ticks w. end_date x < clock e j \<Longrightarrow>
     x\<lparr>status := Expired\<rparr> \<in> set (fst (reconcile e xs w))"
proof (induction xs arbitrary: w)
  case Nil
  then show ?case by simp
next
  case (Cons a xs)
  show ?case
  proof (cases "x = a")
    case True
    with Cons.prems show ?thesis
      by (simp add: new_Date_def split_beta)
  next
    case False
    with Cons.prems have x: "x \<in> set xs" by simp
    let ?w1 = "w\<lparr>ticks := Suc (ticks w)\<rparr>"
    have later: "\<forall>j\<ge>Suc (ticks w). end_date x < clock e j"
      using Cons.prems(3) by (simp add: Suc_le_eq less_imp_le)
    have "x\<lparr>status := Expired\<rparr> \<in> set (fst (reconcile e xs ?w1))"
      by (rule Cons.IH[OF x Cons.prems(2)]) (simp add: later)
    moreover have "x\<lparr>status := Expired\<rparr>
        \<in> set (fst (reconcile e xs (send_update_status e (id' a) Expired ?w1)))"
      by (rule Cons.IH[OF x Cons.prems(2)])
         (simp add: later send_update_status_def record_calls_def Let_def)
    ultimately show ?thesis
      by (simp add: new_Date_def split_beta)
  qed
qed

lemma newest_first_select: "newest_first (select_ideas_desc s)"
proof -
  have "sorted (map (\<lambda>i. - created_at i) (select_ideas_desc s))"
    by (simp add: select_ideas_desc_def)
  then have "sorted_wrt (\<lambda>a b. - created_at a \<le> - created_at b) (select_ideas_desc s)"
    by (simp add: sorted_wrt_map)
  then show ?thesis
    by (simp add: newest_first_def)
qed

lemma newest_first_created:
  "map created_at xs = map created_at ys \<Longrightarrow> newest_first xs = newest_first ys"
proof -
  assume eq: "map created_at xs = map created_at ys"
  have "newest_first zs = sorted_wrt (\<lambda>a b. b \<le> a) (map created_at zs)" for zs
    by (simp add: newest_first_def sorted_wrt_map)
  then show ?thesis
    by (simp add: eq)
qed

lemma fetchIdeas_newest_first:
  "select_ideas_ok e \<Longrightarrow> newest_first (ideas (fetchIdeas e w))"
proof -
  assume ok: "select_ideas_ok e"
  have "map created_at (ideas (fetchIdeas e w)) = map created_at (select_ideas_desc (db w))"
    by (simp add: fetchIdeas_ideas[OF ok] reconcile_created)
  then show ?thesis
    using newest_first_created newest_first_select by blast
qed

lemma fetchIdeas_all_ids:
  "select_ideas_ok e \<Longrightarrow>
     mset (map id' (ideas (fetchIdeas e w))) = mset (map id' (startup_ideas (db w)))"
proof -
  assume ok: "select_ideas_ok e"
  have "map id' (ideas (fetchIdeas e w)) = map id' (select_ideas_desc (db w))"
    by (simp add: fetchIdeas_ideas[OF ok] reconcile_ids)
  moreover have "mset (select_ideas_desc (db w)) = mset (startup_ideas (db w))"
    by (simp add: select_ideas_desc_def)
  ultimately show ?thesis
    by (metis mset_map)
qed

subsection \<open>\<open>handleSubmit\<close>\<close>

lemma handleSubmit_dates:
  assumes "parseInt (duration (form p)) = Fin (of_int d)"
      and "\<bar>clock e (ticks w) + d * msPerDay\<bar> \<le> maxTime"
      and "insert_idea_ok e"
  shows "\<exists>row. startup_ideas (db (snd (handleSubmit e p w))) = startup_ideas (db w) @ [row] \<and>
           end_date row = clock e (ticks w) + d * msPerDay \<and>
           created_at row = clock e (Suc (ticks w)) \<and> status row = Open"
  using assms
  by (simp add: handleSubmit_def Let_def split_beta new_Date_def record_calls_def
      insert_idea_def setDate_plus_def)

subsection \<open>The calls of a committed investment\<close>




subsection \<open>Evaluating the example runs\<close>

lemmas parse_defs = parseFloat_def parseInt_def is_ws_def is_digit_def digits_val_def
  digit_val_def pow10_def

lemmas run_defs = handleInvest_def amount_input_def ledger_steps_def commit_investment_def
  fetchIdeas_def select_ideas_desc_def send_update_status_def update_status_def
  insert_investment_def select_amounts_def js_sum_def new_Date_def record_calls_def
  enqueueSnackbar_def js_le_def js_gt_def js_ge_def Let_def

lemmas ex_defs = ex_world_def ex_view_def ex_idea_def ex_env_def

lemma parseFloat_40: "parseFloat ''40'' = Fin 40"
  by (simp add: parseFloat_def is_ws_def is_digit_def digits_val_def digit_val_def pow10_def)

lemma parseFloat_1001: "parseFloat ''1001'' = Fin 1001"
  by (simp add: parse_defs)


lemma parseFloat_abc: "parseFloat ''abc'' = NaN"
  by (simp add: parse_defs)







lemma parseInt_30: "parseInt ''30'' = Fin 30"
  by (simp add: parse_defs)

section \<open>The claims\<close>







text \<open>
  C3. When the ledger part of an investment fails (the parameters cannot be fetched, the
  transaction cannot be built, the wallet refuses to sign, the submission fails, or the
  confirmation times out), \<open>handleInvest\<close> leaves the store as it was: no investment is
  inserted and no status is changed. It does not even send a request to the store.
\<close>

theorem ledger_failure_leaves_store:
  assumes "\<forall>txid. ledger e \<noteq> Confirmed txid"
  shows "db (handleInvest e idea w) = db w \<and>
         filter (\<lambda>c. \<not> is_ledger_call c) (calls (handleInvest e idea w)) =
           filter (\<lambda>c. \<not> is_ledger_call c) (calls w)"
proof -
  have none: "fst (ledger_steps e idea amt w') = None" for amt w'
    using assms by (simp add: ledger_steps_result split: ledger_outcome.splits)
  show ?thesis
    by (simp add: handleInvest_def Let_def split_beta none enqueueSnackbar_def
        ledger_steps_db ledger_steps_store_calls)
qed

text \<open>
  The confirmation of an investment of 40 times out: all five ledger calls were made,
  and the store still holds the open idea and no investment.
\<close>

theorem ledger_failure_leaves_store_witness:
  "(\<forall>txid. ledger (ex_env\<lparr>ledger := ConfirmTimeout ''TX1''\<rparr>) \<noteq> Confirmed txid) \<and>
   calls (handleInvest (ex_env\<lparr>ledger := ConfirmTimeout ''TX1''\<rparr>) ex_idea (ex_world ''40'')) =
     [GetTransactionParams,
      MakePaymentTxn (Some ''INVESTOR'') ''OWNER'' (Fin 40000000) ''Investment in: T'',
      SignTransaction, SendRawTransaction, WaitForConfirmation ''TX1''] \<and>
   db (handleInvest (ex_env\<lparr>ledger := ConfirmTimeout ''TX1''\<rparr>) ex_idea (ex_world ''40'')) =
     \<lparr>startup_ideas = [ex_idea], investments = []\<rparr>"
proof -
  have "calls (handleInvest (ex_env\<lparr>ledger := ConfirmTimeout ''TX1''\<rparr>) ex_idea (ex_world ''40'')) =
     [GetTransactionParams,
      MakePaymentTxn (Some ''INVESTOR'') ''OWNER'' (Fin 40000000) ''Investment in: T'',
      SignTransaction, SendRawTransaction, WaitForConfirmation ''TX1'']"
    by (simp add: handleInvest_def amount_input_def ex_world_def ex_view_def ex_idea_def
        ex_env_def parseFloat_40 js_le_def js_gt_def ledger_steps_def Let_def record_calls_def
        enqueueSnackbar_def)
  moreover have "db (ex_world ''40'') = \<lparr>startup_ideas = [ex_idea], investments = []\<rparr>"
    by (simp add: ex_world_def ex_view_def ex_idea_def)
  ultimately show ?thesis
    using ledger_failure_leaves_store
      [of "ex_env\<lparr>ledger := ConfirmTimeout ''TX1''\<rparr>" ex_idea "ex_world ''40''"]
    by simp
qed



text \<open>
  C5. An amount that is \<open><= 0\<close>, or \<open>>\<close> the idea's full goal \<open>money_needed\<close>, is
  rejected with a warning before anything else happens: no call is made to the ledger
  client (or to the store), and the store is unchanged.
\<close>

theorem bad_amount_rejected_before_ledger:
  assumes "js_le (parseFloat (amount_input w idea)) (Fin 0)
           \<or> js_gt (parseFloat (amount_input w idea)) (money_needed idea)"
  shows "calls (handleInvest e idea w) = calls w \<and>
         db (handleInvest e idea w) = db w \<and>
         snackbar (handleInvest e idea w) =
           snackbar w @ [if js_le (parseFloat (amount_input w idea)) (Fin 0)
                         then WarnInvalidAmount else WarnExceedsNeeded]"
  by (simp add: handleInvest_rejected[OF assms] enqueueSnackbar_def)

text \<open>An amount of 1001 for a goal of 1000: one warning, no call.\<close>

theorem bad_amount_rejected_before_ledger_witness:
  "js_gt (parseFloat (amount_input (ex_world ''1001'') ex_idea)) (money_needed ex_idea) \<and>
   calls (handleInvest ex_env ex_idea (ex_world ''1001'')) = [] \<and>
   db (handleInvest ex_env ex_idea (ex_world ''1001'')) = db (ex_world ''1001'') \<and>
   snackbar (handleInvest ex_env ex_idea (ex_world ''1001'')) = [WarnExceedsNeeded]"
proof -
  have gt: "js_gt (parseFloat (amount_input (ex_world ''1001'') ex_idea)) (money_needed ex_idea)"
    by (simp add: amount_input_def ex_defs parseFloat_1001 js_gt_def)
  have le: "\<not> js_le (parseFloat (amount_input (ex_world ''1001'') ex_idea)) (Fin 0)"
    by (simp add: amount_input_def ex_defs parseFloat_1001 js_le_def)
  have "calls (ex_world ''1001'') = []" and "snackbar (ex_world ''1001'') = []"
    by (simp_all add: ex_defs)
  then show ?thesis
    using gt le bad_amount_rejected_before_ledger[of "ex_world ''1001''" ex_idea ex_env]
    by simp
qed



text \<open>
  C7. When the query succeeds, \<open>fetchIdeas\<close> hands the view all ideas of the store,
  newest first, and for every stored idea that is \<open>open\<close> with an \<open>end_date\<close> before the
  clock readings of the refresh it sends the \<open>expired\<close> update and returns the idea as
  \<open>expired\<close>; once the store has applied the update, the stored idea is \<open>expired\<close> too.
\<close>

theorem refresh_orders_and_expires:
  assumes "select_ideas_ok e"
  shows "newest_first (ideas (fetchIdeas e w)) \<and>
         mset (map id' (ideas (fetchIdeas e w))) = mset (map id' (startup_ideas (db w))) \<and>
         (\<forall>idea \<in> set (startup_ideas (db w)).
            status idea = Open \<and> (\<forall>j\<ge>ticks w. end_date idea < clock e j) \<longrightarrow>
              idea\<lparr>status := Expired\<rparr> \<in> set (ideas (fetchIdeas e w)) \<and>
              UpdateStatus (id' idea) Expired \<in> set (calls (fetchIdeas e w)) \<and>
              (update_ok e \<longrightarrow>
                 idea\<lparr>status := Expired\<rparr> \<in> set (startup_ideas (db (fetchIdeas e w)))))"
proof -
  have past: "idea\<lparr>status := Expired\<rparr> \<in> set (ideas (fetchIdeas e w)) \<and>
              UpdateStatus (id' idea) Expired \<in> set (calls (fetchIdeas e w)) \<and>
              (update_ok e \<longrightarrow>
                 idea\<lparr>status := Expired\<rparr> \<in> set (startup_ideas (db (fetchIdeas e w))))"
    if stored: "idea \<in> set (startup_ideas (db w))" and "status idea = Open"
      and due: "\<forall>j\<ge>ticks w. end_date idea < clock e j" for idea
  proof -
    have read: "idea \<in> set (select_ideas_desc (db w))"
      using stored by (simp add: set_select_ideas_desc)
    have "\<forall>j\<ge>ticks (record_calls [SelectIdeas] w). end_date idea < clock e j"
      using due by (simp add: record_calls_def)
    from reconcile_from[OF read that(2) this]
    have one: "idea\<lparr>status := Expired\<rparr> \<in> set (ideas (fetchIdeas e w))"
      by (simp add: fetchIdeas_ideas[OF assms])
    have sent: "id' idea \<in> set (expired_ids e (ticks w) (select_ideas_desc (db w)))"
      by (rule expired_ids_from[OF read that(2) due])
    then have two: "UpdateStatus (id' idea) Expired \<in> set (calls (fetchIdeas e w))"
      by (simp add: fetchIdeas_calls assms)
    have three: "idea\<lparr>status := Expired\<rparr> \<in> set (startup_ideas (db (fetchIdeas e w)))"
      if "update_ok e"
      using stored sent that assms by (force simp add: fetchIdeas_rows)
    from one two three show ?thesis
      by blast
  qed
  show ?thesis
    using fetchIdeas_newest_first[OF assms] fetchIdeas_all_ids[OF assms] past
    by blast
qed

text \<open>
  A refresh at time 6000 of a store holding the idea that ended at 5000 and a newer one
  that ends at 9000: the view gets the newer idea first and the older one as \<open>expired\<close>,
  one \<open>expired\<close> update is sent, and the store holds the older idea as \<open>expired\<close>.
\<close>

theorem refresh_orders_and_expires_witness:
  "select_ideas_ok ex_late_env \<and>
   ideas (fetchIdeas ex_late_env ex_two) = [ex_idea2, ex_idea\<lparr>status := Expired\<rparr>] \<and>
   newest_first (ideas (fetchIdeas ex_late_env ex_two)) \<and>
   calls (fetchIdeas ex_late_env ex_two) = [SelectIdeas, UpdateStatus ''i1'' Expired] \<and>
   startup_ideas (db (fetchIdeas ex_late_env ex_two)) = [ex_idea\<lparr>status := Expired\<rparr>, ex_idea2]"
proof -
  have ok: "select_ideas_ok ex_late_env"
    by (simp add: ex_late_env_def ex_env_def)
  have run: "ideas (fetchIdeas ex_late_env ex_two) = [ex_idea2, ex_idea\<lparr>status := Expired\<rparr>]"
    "calls (fetchIdeas ex_late_env ex_two) = [SelectIdeas, UpdateStatus ''i1'' Expired]"
    "startup_ideas (db (fetchIdeas ex_late_env ex_two)) = [ex_idea\<lparr>status := Expired\<rparr>, ex_idea2]"
    by (simp_all add: run_defs ex_two_def ex_idea_def ex_idea2_def ex_late_env_def ex_env_def)
  from refresh_orders_and_expires[OF ok, of ex_two]
  have "newest_first (ideas (fetchIdeas ex_late_env ex_two))"
    by blast
  with ok run show ?thesis
    by simp
qed

text \<open>
  C8. The spec has the stored \<open>end_date\<close> equal to the stored \<open>created_at\<close> plus exactly
  the duration. \<open>handleSubmit\<close> reads the clock twice, at line 39 for \<open>endDate\<close> and at
  line 54 for \<open>created_at\<close>. With a duration of 30 days and one millisecond between the
  readings (1000 and 1001), the stored \<open>end_date\<close> is the first reading plus 30 days and
  the stored \<open>created_at\<close> is the second reading, so the two differ by one millisecond
  less than 30 days.
\<close>

theorem posted_end_date_from_earlier_reading:
  "end_date (last (startup_ideas (db (snd (handleSubmit ex_env ex_post ex_two))))) = 2592001000 \<and>
   created_at (last (startup_ideas (db (snd (handleSubmit ex_env ex_post ex_two))))) = 1001 \<and>
   end_date (last (startup_ideas (db (snd (handleSubmit ex_env ex_post ex_two))))) \<noteq>
     created_at (last (startup_ideas (db (snd (handleSubmit ex_env ex_post ex_two)))))
       + 30 * msPerDay"
  by (simp add: handleSubmit_def Let_def split_beta new_Date_def record_calls_def
      insert_idea_def setDate_plus_def parseInt_30 msPerDay_def maxTime_def
      ex_post_def ex_two_def ex_env_def)




text \<open>
  C10. When the text of the amount field does not parse (\<open>parseFloat\<close> gives \<open>NaN\<close>),
  neither of the two checks rejects it: \<open>handleInvest\<close> goes on to the ledger client,
  and the payment transaction it builds has the amount \<open>Math.floor(NaN * 1_000_000)\<close>,
  which is \<open>NaN\<close>.
\<close>

theorem nan_amount_reaches_ledger:
  assumes "parseFloat (amount_input w idea) = NaN"
  shows "\<not> js_le (parseFloat (amount_input w idea)) (Fin 0) \<and>
         \<not> js_gt (parseFloat (amount_input w idea)) (money_needed idea) \<and>
         (\<exists>cs. calls (handleInvest e idea w) = calls w @ GetTransactionParams # cs) \<and>
         (ledger e \<noteq> ParamsFailed \<longrightarrow>
            payment_amounts (calls (handleInvest e idea w)) = payment_amounts (calls w) @ [NaN])"
proof -
  have a: "\<not> js_le (parseFloat (amount_input w idea)) (Fin 0)"
    by (simp add: assms js_le_def)
  have b: "\<not> js_gt (parseFloat (amount_input w idea)) (money_needed idea)"
    by (cases "money_needed idea") (simp_all add: assms js_gt_def)
  show ?thesis
    using a b handleInvest_first_call[OF a b, of e] handleInvest_payment[OF a b, of e]
    by (simp add: assms)
qed

text \<open>
  With \<open>abc\<close> in the amount field the handler fetches the parameters and builds a
  payment of \<open>NaN\<close>; here the client refuses to build it.
\<close>

theorem nan_amount_reaches_ledger_witness:
  "parseFloat (amount_input (ex_world ''abc'') ex_idea) = NaN \<and>
   calls (handleInvest (ex_env\<lparr>ledger := BuildFailed\<rparr>) ex_idea (ex_world ''abc'')) =
     [GetTransactionParams,
      MakePaymentTxn (Some ''INVESTOR'') ''OWNER'' NaN ''Investment in: T''] \<and>
   payment_amounts (calls (handleInvest (ex_env\<lparr>ledger := BuildFailed\<rparr>) ex_idea (ex_world ''abc'')))
     = [NaN]"
proof -
  have nan: "parseFloat (amount_input (ex_world ''abc'') ex_idea) = NaN"
    by (simp add: amount_input_def ex_defs parseFloat_abc)
  have run: "calls (handleInvest (ex_env\<lparr>ledger := BuildFailed\<rparr>) ex_idea (ex_world ''abc'')) =
     [GetTransactionParams,
      MakePaymentTxn (Some ''INVESTOR'') ''OWNER'' NaN ''Investment in: T'']"
    by (simp add: run_defs ex_defs parseFloat_abc)
  have "ledger (ex_env\<lparr>ledger := BuildFailed\<rparr>) \<noteq> ParamsFailed"
    and "calls (ex_world ''abc'') = []"
    by (simp_all add: ex_defs)
  then show ?thesis
    using nan run
      nan_amount_reaches_ledger[OF nan, of "ex_env\<lparr>ledger := BuildFailed\<rparr>"]
    by simp
qed

end
